theory Spec2Isabelle
  imports Complex_Main "HOL-Library.Char_ord" "HOL-Library.List_Lexorder" "HOL-Library.Multiset"
begin

section \<open>JavaScript strings and arrays\<close>

text \<open>
  Strings are ASCII character lists. The helpers below are the string and array
  methods the analyzer calls, with the results JavaScript gives.
\<close>

text \<open>\<^verbatim>\<open>s.startsWith(p)\<close>\<close>

fun startsWith :: "string \<Rightarrow> string \<Rightarrow> bool" where
  "startsWith s [] = True"
| "startsWith [] (p # ps) = False"
| "startsWith (c # cs) (p # ps) = (c = p \<and> startsWith cs ps)"

text \<open>\<^verbatim>\<open>s.includes(p)\<close>: \<open>p\<close> occurs in \<open>s\<close> as a substring.\<close>

fun includes_str :: "string \<Rightarrow> string \<Rightarrow> bool" where
  "includes_str [] p = (p = [])"
| "includes_str (c # cs) p = (startsWith (c # cs) p \<or> includes_str cs p)"

text \<open>\<^verbatim>\<open>s.endsWith(p)\<close>\<close>

definition endsWith :: "string \<Rightarrow> string \<Rightarrow> bool" where
  "endsWith s p = startsWith (rev s) (rev p)"

text \<open>\<^verbatim>\<open>s.split(d)\<close> for a one-character separator; the empty string gives \<open>['']\<close>.\<close>

fun split_str :: "char \<Rightarrow> string \<Rightarrow> string list" where
  "split_str d [] = [[]]"
| "split_str d (c # cs) =
     (if c = d then [] # split_str d cs
      else (case split_str d cs of
              [] \<Rightarrow> [[c]]
            | p # ps \<Rightarrow> (c # p) # ps))"

text \<open>\<^verbatim>\<open>parts.join(sep)\<close>\<close>

fun join :: "string \<Rightarrow> string list \<Rightarrow> string" where
  "join sep [] = []"
| "join sep [p] = p"
| "join sep (p # q # ps) = p @ sep @ join sep (q # ps)"

text \<open>\<^verbatim>\<open>s.replace(p, r)\<close> with a string pattern: the first occurrence only.\<close>

fun replace :: "string \<Rightarrow> string \<Rightarrow> string \<Rightarrow> string" where
  "replace [] p r = (if p = [] then r else [])"
| "replace (c # cs) p r =
     (if startsWith (c # cs) p then r @ drop (length p) (c # cs)
      else c # replace cs p r)"

definition toUpperCase_char :: "char \<Rightarrow> char" where
  "toUpperCase_char c =
     (let n = (of_char c :: nat) in if 97 \<le> n \<and> n \<le> 122 then char_of (n - 32) else c)"

definition toLowerCase_char :: "char \<Rightarrow> char" where
  "toLowerCase_char c =
     (let n = (of_char c :: nat) in if 65 \<le> n \<and> n \<le> 90 then char_of (n + 32) else c)"

definition toLowerCase :: "string \<Rightarrow> string" where
  "toLowerCase s = map toLowerCase_char s"

text \<open>\<^verbatim>\<open>s.charAt(0).toUpperCase() + s.slice(1)\<close>\<close>

fun capitalize :: "string \<Rightarrow> string" where
  "capitalize [] = []"
| "capitalize (c # cs) = toUpperCase_char c # cs"

definition is_digit :: "char \<Rightarrow> bool" where
  "is_digit c = (let n = (of_char c :: nat) in 48 \<le> n \<and> n \<le> 57)"

definition is_space :: "char \<Rightarrow> bool" where
  "is_space c = ((of_char c :: nat) \<in> {9, 10, 11, 12, 13, 32})"

definition is_alnum :: "char \<Rightarrow> bool" where
  "is_alnum c =
     (let n = (of_char c :: nat)
      in (48 \<le> n \<and> n \<le> 57) \<or> (65 \<le> n \<and> n \<le> 90) \<or> (97 \<le> n \<and> n \<le> 122))"

text \<open>The pieces of a string between its separator characters.\<close>

fun pieces :: "(char \<Rightarrow> bool) \<Rightarrow> string \<Rightarrow> string list" where
  "pieces sep [] = [[]]"
| "pieces sep (c # cs) =
     (if sep c then [] # pieces sep cs
      else (case pieces sep cs of
              [] \<Rightarrow> [[c]]
            | p # ps \<Rightarrow> (c # p) # ps))"

text \<open>The pieces that are not empty: \<^verbatim>\<open>s.split(/\s+/).filter(t => t.length > 0)\<close>
  when the separators are the white space.\<close>

definition split_fields :: "(char \<Rightarrow> bool) \<Rightarrow> string \<Rightarrow> string list" where
  "split_fields sep s = filter (\<lambda>p. p \<noteq> []) (pieces sep s)"

text \<open>\<^verbatim>\<open>s.trim()\<close>\<close>

definition trim :: "string \<Rightarrow> string" where
  "trim s = rev (dropWhile is_space (rev (dropWhile is_space s)))"

text \<open>The decimal text of a number, as a template literal prints it.\<close>

fun show_nat :: "nat \<Rightarrow> string" where
  "show_nat n =
     (if n < 10 then [char_of (48 + n)]
      else show_nat (n div 10) @ [char_of (48 + n mod 10)])"

text \<open>
  A JavaScript \<open>Set\<close> of strings iterates in insertion order; \<open>add\<close> of a member
  changes nothing.
\<close>

definition set_add :: "string list \<Rightarrow> string \<Rightarrow> string list" where
  "set_add s x = (if x \<in> set s then s else s @ [x])"

section \<open>The document analyzer (src/database.js)\<close>

text \<open>
  A node of a workflow document. Only \<open>type\<close> is read by the analyzer;
  \<open>None\<close> is an absent (or empty) type, which \<^verbatim>\<open>node.type || ''\<close> turns
  into the empty string.
\<close>

record node =
  node_name :: string
  node_type :: "string option"

text \<open>
  The \<open>nodes\<close> field of a parsed document: absent (or otherwise falsy), an array,
  or a truthy value that is no array, on which \<^verbatim>\<open>forEach\<close> raises.
\<close>

datatype jnodes = NodesAbsent | NodesArray "node list" | NodesOther

text \<open>The fields of a parsed JSON document which \<open>analyzeWorkflow\<close> reads.\<close>

record document =
  doc_id :: "string option"
  doc_active :: bool
  doc_nodes :: jnodes
  doc_tags :: "string list"
  doc_createdAt :: "string option"
  doc_updatedAt :: "string option"
  doc_name :: "string option"

text \<open>
  A file of the corpus as the analyzer sees it: the result of \<^verbatim>\<open>fs.readJsonSync\<close>
  (\<open>None\<close> when the bytes are no JSON document), the size \<^verbatim>\<open>fs.statSync\<close> reports
  and the MD5 digest of the bytes. The digest is a function of the bytes alone, so an
  unchanged file has an unchanged digest.
\<close>

record disk_file =
  parsed :: "document option"
  stat_size :: nat
  md5 :: string

text \<open>The record \<open>analyzeWorkflow\<close> builds.\<close>

record workflow =
  filename :: string
  name :: string
  workflow_id :: string
  active :: bool
  nodes :: "node list"
  tags :: "string list"
  created_at :: string
  updated_at :: string
  file_hash :: string
  file_size :: nat
  node_count :: nat
  complexity :: string
  trigger_type :: string
  integrations :: "string list"
  description :: string

text \<open>\<^verbatim>\<open>x || ''\<close> on an optional string.\<close>

definition or_empty :: "string option \<Rightarrow> string" where
  "or_empty x = (case x of None \<Rightarrow> [] | Some s \<Rightarrow> s)"

text \<open>
  The table \<open>specialTerms\<close> of \<open>formatWorkflowName\<close>. The lookup
  \<^verbatim>\<open>specialTerms[lower]\<close> also finds the property \<open>constructor\<close> every object
  inherits, a function whose text \<open>join\<close> then prints.
\<close>

definition specialTerms :: "string \<Rightarrow> string option" where
  "specialTerms =
     map_of
      [(''http'', ''HTTP''),
       (''api'', ''API''),
       (''webhook'', ''Webhook''),
       (''automation'', ''Automation''),
       (''automate'', ''Automate''),
       (''scheduled'', ''Scheduled''),
       (''triggered'', ''Triggered''),
       (''manual'', ''Manual''),
       (''constructor'', ''function Object() { [native code] }'')]"

definition formatWorkflowName :: "string \<Rightarrow> string" where
  "formatWorkflowName file =
     (let nm = replace file ''.json'' [];
          parts = split_str (CHR ''_'') nm;
          startIndex = (if hd parts \<noteq> [] \<and> list_all is_digit (hd parts) then 1 else 0);
          cleanParts = drop startIndex parts
      in join '' ''
           (map (\<lambda>part. case specialTerms (toLowerCase part) of
                           Some t \<Rightarrow> t
                         | None \<Rightarrow> capitalize part)
                cleanParts))"

text \<open>
  One round of the \<open>forEach\<close> in \<open>analyzeNodes\<close>: the state is the set of
  integrations and the trigger type found so far.
\<close>

definition analyzeNode :: "string list \<times> string \<Rightarrow> node \<Rightarrow> string list \<times> string" where
  "analyzeNode st nd =
     (let nodeType = or_empty (node_type nd);
          ints = fst st;
          triggerType = snd st;
          ints' =
            (if includes_str nodeType ''.'' then
               (let parts = split_str (CHR ''.'') nodeType in
                if length parts \<ge> 2 then
                  (let integration = parts ! 1 in
                   if integration \<noteq> ''core'' \<and> integration \<noteq> ''base''
                   then set_add ints (capitalize integration)
                   else ints)
                else ints)
             else ints);
          triggerType' =
            (if includes_str nodeType ''webhook'' then ''Webhook''
             else if includes_str nodeType ''cron'' \<or> includes_str nodeType ''schedule'' then ''Scheduled''
             else if includes_str nodeType ''trigger'' then ''Triggered''
             else triggerType)
      in (ints', triggerType'))"

text \<open>\<open>analyzeNodes\<close> returns \<open>{ triggerType, integrations }\<close>; here the pair
  (integrations, triggerType).\<close>

definition analyzeNodes :: "node list \<Rightarrow> string list \<times> string" where
  "analyzeNodes nds = foldl analyzeNode ([], ''Manual'') nds"

definition generateDescription :: "workflow \<Rightarrow> string \<Rightarrow> string list \<Rightarrow> string" where
  "generateDescription w triggerType ints =
     (let parts1 = (if triggerType \<noteq> ''Manual'' then [triggerType @ '' workflow'']
                    else [''Manual workflow'']);
          parts2 =
            (if length ints > 0 then
               (let integrationList = take 3 ints;
                    integrationList' =
                      (if length ints > 3
                       then integrationList @ [''+'' @ show_nat (length ints - 3) @ '' more'']
                       else integrationList)
                in parts1 @ [''integrating '' @ join '', '' integrationList'])
             else parts1);
          parts3 = parts2 @ [''with '' @ show_nat (node_count w) @ '' nodes ('' @
                              complexity w @ '' complexity)'']
      in join '' '' parts3)"

text \<open>
  \<open>analyzeWorkflow\<close>: the whole body runs in a \<open>try\<close> whose \<open>catch\<close> returns
  \<open>null\<close> (here \<open>None\<close>). The file is passed with its name; \<open>path.basename\<close> of
  the joined path is the directory entry itself. The \<open>connections\<close> field is copied
  and never read again.
\<close>

definition analyzeWorkflow :: "string \<Rightarrow> disk_file \<Rightarrow> workflow option" where
  "analyzeWorkflow file f =
     (case parsed f of
        None \<Rightarrow> None
      | Some data \<Rightarrow>
         (case doc_nodes data of
            NodesOther \<Rightarrow> None
          | jn \<Rightarrow>
             (let nds = (case jn of NodesArray ns \<Rightarrow> ns | _ \<Rightarrow> []);
                  jsonName = map_option trim (doc_name data);
                  nm = (case jsonName of
                          None \<Rightarrow> formatWorkflowName file
                        | Some j \<Rightarrow>
                            if j \<noteq> [] \<and> j \<noteq> replace file ''.json'' [] \<and>
                               \<not> startsWith j ''My workflow''
                            then j else formatWorkflowName file);
                  nodeCount = length nds;
                  cx = (if nodeCount \<le> 5 then ''low''
                        else if nodeCount \<le> 15 then ''medium''
                        else ''high'');
                  res = analyzeNodes nds;
                  triggerType = snd res;
                  ints = fst res;
                  w = \<lparr> filename = file, name = nm, workflow_id = or_empty (doc_id data),
                         active = doc_active data, nodes = nds, tags = doc_tags data,
                         created_at = or_empty (doc_createdAt data),
                         updated_at = or_empty (doc_updatedAt data),
                         file_hash = md5 f, file_size = stat_size f,
                         node_count = nodeCount, complexity = cx,
                         trigger_type = triggerType, integrations = ints,
                         description = [] \<rparr>
              in Some (w\<lparr> description := generateDescription w triggerType ints \<rparr>))))"

text \<open>\<open>getComplexityLevel\<close> of the protocol server, on a stored node count.\<close>

definition getComplexityLevel :: "int \<Rightarrow> string" where
  "getComplexityLevel nodeCount =
     (if nodeCount \<le> 5 then ''low''
      else if nodeCount \<le> 15 then ''medium''
      else ''high'')"

section \<open>The index store (src/database.js)\<close>

text \<open>
  A row of the table \<open>workflows\<close>. The two JSON columns hold
  \<^verbatim>\<open>JSON.stringify\<close> of a string array and are read back with \<^verbatim>\<open>JSON.parse\<close>;
  the model keeps the array. The column \<open>analyzed_at\<close> is the wall clock of the
  write and is left out.
\<close>

record row =
  col_id :: nat
  col_filename :: string
  col_name :: string
  col_workflow_id :: string
  col_active :: bool
  col_description :: string
  col_trigger_type :: string
  col_complexity :: string
  col_node_count :: nat
  col_integrations :: "string list"
  col_tags :: "string list"
  col_created_at :: string
  col_updated_at :: string
  col_file_hash :: string
  col_file_size :: nat

text \<open>A row of the full-text table \<open>workflows_fts\<close>.\<close>

record fts_row =
  fts_filename :: string
  fts_name :: string
  fts_description :: string
  fts_integrations :: "string list"
  fts_tags :: "string list"

text \<open>
  The database: the two tables, the counter behind \<open>AUTOINCREMENT\<close>, and the
  connection's \<open>recursive_triggers\<close> setting, on which the engine's \<open>REPLACE\<close>
  depends.
\<close>

record store =
  workflows :: "row list"
  workflows_fts :: "fts_row list"
  sqlite_sequence :: nat
  recursive_triggers :: bool

text \<open>
  \<open>initDatabase\<close> opens the database, sets the pragmas \<open>journal_mode\<close>,
  \<open>synchronous\<close>, \<open>cache_size\<close> and \<open>temp_store\<close>, and creates the tables.
  It sets no \<open>recursive_triggers\<close> pragma, so the setting keeps the engine's
  default, which is off.
\<close>

definition initDatabase :: store where
  "initDatabase =
     \<lparr> workflows = [], workflows_fts = [], sqlite_sequence = 0, recursive_triggers = False \<rparr>"

definition fts_of :: "row \<Rightarrow> fts_row" where
  "fts_of r =
     \<lparr> fts_filename = col_filename r, fts_name = col_name r,
       fts_description = col_description r, fts_integrations = col_integrations r,
       fts_tags = col_tags r \<rparr>"

text \<open>The three triggers of \<open>createTables\<close>.\<close>

definition workflows_ai :: "store \<Rightarrow> row \<Rightarrow> store" where
  "workflows_ai st new = st\<lparr> workflows_fts := workflows_fts st @ [fts_of new] \<rparr>"

definition workflows_ad :: "store \<Rightarrow> row \<Rightarrow> store" where
  "workflows_ad st old =
     st\<lparr> workflows_fts := filter (\<lambda>f. fts_filename f \<noteq> col_filename old) (workflows_fts st) \<rparr>"

definition workflows_au :: "store \<Rightarrow> row \<Rightarrow> row \<Rightarrow> store" where
  "workflows_au st old new =
     (let st1 = st\<lparr> workflows_fts :=
                     filter (\<lambda>f. fts_filename f \<noteq> col_filename old) (workflows_fts st) \<rparr>
      in st1\<lparr> workflows_fts := workflows_fts st1 @ [fts_of new] \<rparr>)"

text \<open>
  The engine's \<^verbatim>\<open>INSERT OR REPLACE INTO workflows\<close>: the rows that clash with the
  new one on the unique column \<open>filename\<close> are deleted first, and the engine fires
  the delete trigger for them if and only if recursive triggers are enabled; then the
  row is inserted under a fresh id and the insert trigger fires. No update happens, so
  \<open>workflows_au\<close> never fires on this statement.
\<close>

definition insert_or_replace :: "store \<Rightarrow> row \<Rightarrow> store" where
  "insert_or_replace st vals =
     (let old = filter (\<lambda>r. col_filename r = col_filename vals) (workflows st);
          st1 = st\<lparr> workflows :=
                      filter (\<lambda>r. col_filename r \<noteq> col_filename vals) (workflows st) \<rparr>;
          st2 = (if recursive_triggers st then foldl workflows_ad st1 old else st1);
          new = vals\<lparr> col_id := sqlite_sequence st + 1 \<rparr>;
          st3 = st2\<lparr> workflows := workflows st2 @ [new],
                     sqlite_sequence := sqlite_sequence st + 1 \<rparr>
      in workflows_ai st3 new)"

datatype error = EnumerationError | StoreError | SqliteError | TypeError | NotFound

text \<open>The values \<open>upsertWorkflow\<close> binds to the statement.\<close>

definition row_of :: "workflow \<Rightarrow> row" where
  "row_of w =
     \<lparr> col_id = 0, col_filename = filename w, col_name = name w,
       col_workflow_id = workflow_id w, col_active = active w,
       col_description = description w, col_trigger_type = trigger_type w,
       col_complexity = complexity w, col_node_count = node_count w,
       col_integrations = integrations w, col_tags = tags w,
       col_created_at = created_at w, col_updated_at = updated_at w,
       col_file_hash = file_hash w, col_file_size = file_size w \<rparr>"

text \<open>
  \<open>upsertWorkflow\<close>. The statement may raise (the engine rejects a value, or the
  write fails); \<open>raises\<close> says for which records it does. A statement that raises
  changes nothing.
\<close>

definition upsertWorkflow :: "(workflow \<Rightarrow> bool) \<Rightarrow> store \<Rightarrow> workflow \<Rightarrow> error + store" where
  "upsertWorkflow raises st w =
     (if raises w then Inl StoreError else Inr (insert_or_replace st (row_of w)))"

definition getWorkflowByFilename :: "store \<Rightarrow> string \<Rightarrow> row option" where
  "getWorkflowByFilename st file = find (\<lambda>r. col_filename r = file) (workflows st)"

section \<open>The indexing pipeline (src/database.js)\<close>

text \<open>
  The corpus directory: the result of \<^verbatim>\<open>fs.readdir\<close> (\<open>None\<close> when it raises) and
  the file behind each entry.
\<close>

record corpus =
  readdir :: "string list option"
  readFile :: "string \<Rightarrow> disk_file"

record counters =
  processed :: nat
  skipped :: nat
  errors :: nat

record index_result =
  res_processed :: nat
  res_skipped :: nat
  res_errors :: nat
  res_total :: nat

text \<open>One round of the \<open>for\<close> loop of \<open>indexWorkflows\<close>.\<close>

definition indexFile ::
  "(workflow \<Rightarrow> bool) \<Rightarrow> (string \<Rightarrow> disk_file) \<Rightarrow> bool \<Rightarrow> store \<times> counters \<Rightarrow> string
     \<Rightarrow> store \<times> counters" where
  "indexFile raises rd forceReindex sc file =
     (let st = fst sc; c = snd sc in
      case analyzeWorkflow file (rd file) of
        None \<Rightarrow> (st, c\<lparr> errors := errors c + 1 \<rparr>)
      | Some w \<Rightarrow>
          (let existing = getWorkflowByFilename st file in
           if \<not> forceReindex \<and>
              (case existing of None \<Rightarrow> False | Some e \<Rightarrow> col_file_hash e = file_hash w)
           then (st, c\<lparr> skipped := skipped c + 1 \<rparr>)
           else
             (case upsertWorkflow raises st w of
                Inl e \<Rightarrow> (st, c\<lparr> errors := errors c + 1 \<rparr>)
              | Inr st' \<Rightarrow> (st', c\<lparr> processed := processed c + 1 \<rparr>))))"

definition indexWorkflows ::
  "(workflow \<Rightarrow> bool) \<Rightarrow> corpus \<Rightarrow> bool \<Rightarrow> store \<Rightarrow> error + (store \<times> index_result)" where
  "indexWorkflows raises dir forceReindex st =
     (case readdir dir of
        None \<Rightarrow> Inl EnumerationError
      | Some workflowFiles \<Rightarrow>
          (let jsonFiles = filter (\<lambda>file. endsWith file ''.json'') workflowFiles;
               sc = foldl (indexFile raises (readFile dir) forceReindex)
                      (st, \<lparr> processed = 0, skipped = 0, errors = 0 \<rparr>) jsonFiles
           in Inr (fst sc,
                   \<lparr> res_processed = processed (snd sc), res_skipped = skipped (snd sc),
                     res_errors = errors (snd sc), res_total = length jsonFiles \<rparr>)))"

section \<open>The query engine (src/database.js, src/http-server.js)\<close>

text \<open>
  The two statements \<open>searchWorkflows\<close> starts from (the first is written over
  several lines in the source).
\<close>

definition fts_select :: string where
  "fts_select =
     ''SELECT w.* FROM workflows w JOIN workflows_fts fts ON w.filename = fts.filename WHERE workflows_fts MATCH ?''"

definition plain_select :: string where
  "plain_select = ''SELECT * FROM workflows WHERE 1=1''"

text \<open>
  What \<^verbatim>\<open>prepare(sql).get(...)\<close> returns for a statement whose rows are \<open>rs\<close>:
  the one row of a count when the statement selects \<^verbatim>\<open>COUNT(*) as total\<close>,
  otherwise the first row, or \<open>undefined\<close> when there is none.
\<close>

datatype get_result = Undefined | CountRow nat | DataRow row

definition stmt_get :: "string \<Rightarrow> row list \<Rightarrow> get_result" where
  "stmt_get sql rs =
     (if includes_str sql ''SELECT COUNT(*) as total'' then CountRow (length rs)
      else (case rs of [] \<Rightarrow> Undefined | r # _ \<Rightarrow> DataRow r))"

record search_result =
  found :: "row list"
  total :: "nat option"

text \<open>
  \<open>searchWorkflows\<close> on an initialized database builds the text of its statement
  and, with it, decides the rows the statement selects. \<open>search_sql\<close> is the text
  before the count and the pagination are added, for the trimmed query \<open>q\<close>.
\<close>

definition search_sql :: "string \<Rightarrow> string \<Rightarrow> string \<Rightarrow> bool \<Rightarrow> string" where
  "search_sql q triggerFilter complexityFilter activeOnly =
     (let sql0 = (if q \<noteq> [] then fts_select else plain_select);
          sql1 = (if triggerFilter \<noteq> ''all'' then sql0 @ '' AND trigger_type = ?'' else sql0);
          sql2 = (if complexityFilter \<noteq> ''all'' then sql1 @ '' AND complexity = ?'' else sql1);
          sql3 = (if activeOnly then sql2 @ '' AND active = 1'' else sql2)
      in sql3)"

text \<open>
  The rows that statement selects, where \<open>m\<close> says which rows of the full-text table
  the \<open>MATCH\<close> finds. The engine scans the full-text table and looks up the record of
  each matching row by its filename, so a record comes once for each of its matching
  rows, in the order of the full-text table.
\<close>

definition search_rows ::
  "(fts_row \<Rightarrow> bool) \<Rightarrow> store \<Rightarrow> string \<Rightarrow> string \<Rightarrow> string \<Rightarrow> bool \<Rightarrow> row list" where
  "search_rows m st q triggerFilter complexityFilter activeOnly =
     (let rows0 = (if q \<noteq> [] then
                     concat (map (\<lambda>f. filter (\<lambda>w. col_filename w = fts_filename f) (workflows st))
                               (filter m (workflows_fts st)))
                   else workflows st);
          rows1 = (if triggerFilter \<noteq> ''all''
                   then filter (\<lambda>w. col_trigger_type w = triggerFilter) rows0 else rows0);
          rows2 = (if complexityFilter \<noteq> ''all''
                   then filter (\<lambda>w. col_complexity w = complexityFilter) rows1 else rows1);
          rows3 = (if activeOnly then filter col_active rows2 else rows2)
      in rows3)"

text \<open>
  \<open>searchWorkflows\<close>. \<open>fts_match q\<close> stands for the engine's \<open>MATCH\<close> against the
  expression \<open>buildFTSQuery\<close> makes of the trimmed query \<open>q\<close>: \<open>None\<close> when the
  engine rejects the expression, which raises at the first statement that runs, and
  otherwise the rows of the full-text table it finds. The count statement is the text
  with \<^verbatim>\<open>SELECT *\<close> replaced, and \<open>total\<close> is destructured from what it returns:
  \<open>None\<close> when that property is \<open>undefined\<close>, a TypeError when the returned value
  itself is \<open>undefined\<close>. Then the page is read with
  \<^verbatim>\<open>ORDER BY name LIMIT ? OFFSET ?\<close>; rows of equal name keep the order in which the
  statement finds them.
\<close>

definition searchWorkflows ::
  "(string \<Rightarrow> (fts_row \<Rightarrow> bool) option) \<Rightarrow> store \<Rightarrow> string \<Rightarrow> string \<Rightarrow> string \<Rightarrow> bool \<Rightarrow> nat
     \<Rightarrow> nat \<Rightarrow> error + search_result" where
  "searchWorkflows fts_match st query triggerFilter complexityFilter activeOnly limit offset =
     (case (if trim query \<noteq> [] then fts_match (trim query) else Some (\<lambda>f. True)) of
        None \<Rightarrow> Inl SqliteError
      | Some m \<Rightarrow>
          (let sql = search_sql (trim query) triggerFilter complexityFilter activeOnly;
               rows = search_rows m st (trim query) triggerFilter complexityFilter activeOnly
           in case stmt_get (replace sql ''SELECT *'' ''SELECT COUNT(*) as total'') rows of
                Undefined \<Rightarrow> Inl TypeError
              | CountRow n \<Rightarrow>
                  Inr \<lparr> found = take limit (drop offset (sort_key col_name rows)),
                        total = Some n \<rparr>
              | DataRow r \<Rightarrow>
                  Inr \<lparr> found = take limit (drop offset (sort_key col_name rows)),
                        total = None \<rparr>))"

text \<open>
  What the specification counts: the records matching the text predicate and the
  filters, pagination aside.
\<close>

definition spec_matching ::
  "(string \<Rightarrow> (fts_row \<Rightarrow> bool) option) \<Rightarrow> store \<Rightarrow> string \<Rightarrow> string \<Rightarrow> string \<Rightarrow> bool
     \<Rightarrow> row list" where
  "spec_matching fts_match st query triggerFilter complexityFilter activeOnly =
     filter (\<lambda>w. (trim query = [] \<or>
                    (case fts_match (trim query) of
                       None \<Rightarrow> False
                     | Some m \<Rightarrow>
                         list_ex (\<lambda>f. col_filename w = fts_filename f \<and> m f)
                           (workflows_fts st))) \<and>
                  (triggerFilter = ''all'' \<or> col_trigger_type w = triggerFilter) \<and>
                  (complexityFilter = ''all'' \<or> col_complexity w = complexityFilter) \<and>
                  (activeOnly = False \<or> col_active w))
       (workflows st)"

text \<open>
  The handler of \<^verbatim>\<open>GET /api/workflows\<close>, on the parsed integers \<open>page\<close> and
  \<open>per_page\<close>. \<open>pages\<close> is \<open>None\<close> when \<^verbatim>\<open>Math.ceil(total / perPage)\<close> is
  \<open>NaN\<close>. An exception of the search is answered with status 500.
\<close>

record api_response =
  resp_workflows :: "row list"
  resp_total :: "nat option"
  resp_page :: int
  resp_per_page :: int
  resp_pages :: "nat option"

definition api_workflows ::
  "(string \<Rightarrow> (fts_row \<Rightarrow> bool) option) \<Rightarrow> store \<Rightarrow> string \<Rightarrow> string \<Rightarrow> string \<Rightarrow> bool \<Rightarrow> int \<Rightarrow> int
     \<Rightarrow> error + api_response" where
  "api_workflows fts_match st q trigger cx activeOnly page per_page =
     (let pageNum = max 1 page;
          perPage = min 100 (max 1 per_page);
          offset = (pageNum - 1) * perPage
      in case searchWorkflows fts_match st q trigger cx activeOnly (nat perPage) (nat offset) of
           Inl e \<Rightarrow> Inl e
         | Inr r \<Rightarrow>
             Inr \<lparr> resp_workflows = found r, resp_total = total r, resp_page = pageNum,
                   resp_per_page = perPage,
                   resp_pages = map_option
                     (\<lambda>n. nat \<lceil>(of_nat n :: rat) / of_int perPage\<rceil>) (total r) \<rparr>)"

section \<open>The similarity engine (protocol server)\<close>

text \<open>
  JavaScript numbers are IEEE 754 doubles. A finite double is kept as the rational it
  denotes, and \<open>fl x\<close> is the double nearest to the real \<open>x\<close>, ties going to the
  even significand of 53 bits (with the fixed exponent of the subnormal range at the
  bottom). Every arithmetic operation returns \<open>fl\<close> of the exact result. The numbers
  of this engine are quotients of array lengths and sums below 100, so nothing overflows.
\<close>

function bit_length :: "int \<Rightarrow> int" where
  "bit_length n = (if n \<le> 0 then 0 else 1 + bit_length (n div 2))"
  by pat_completeness auto
termination
  by (relation "measure nat") auto

definition pow2 :: "int \<Rightarrow> rat" where
  "pow2 e = (if 0 \<le> e then 2 ^ nat e else 1 / 2 ^ nat (- e))"

definition round_half_even :: "rat \<Rightarrow> int" where
  "round_half_even y =
     (let m = \<lfloor>y\<rfloor>; r = y - of_int m
      in if r < 1 / 2 then m
         else if 1 / 2 < r then m + 1
         else if even m then m else m + 1)"

text \<open>
  For \<open>a = p / q > 0\<close> with \<open>k\<close> the difference of the bit lengths of \<open>p\<close> and
  \<open>q\<close>, \<open>a\<close> lies between \<open>2 ^ (k - 1)\<close> and \<open>2 ^ (k + 1)\<close>, so its binary exponent
  is \<open>k\<close> or \<open>k - 1\<close>.
\<close>

definition fl :: "rat \<Rightarrow> rat" where
  "fl x =
     (if x = 0 then 0
      else
        (let a = \<bar>x\<bar>;
             p = fst (quotient_of a);
             q = snd (quotient_of a);
             k = bit_length p - bit_length q;
             e0 = (if pow2 k \<le> a then k else k - 1);
             e = max (e0 - 52) (- 1074);
             m = round_half_even (a / pow2 e)
         in sgn x * of_int m * pow2 e))"

text \<open>
  A JavaScript number as this engine meets it: \<open>NaN\<close> or a finite double. \<open>NaN\<close>
  spreads through sums and products, and every comparison with it is false.
\<close>

datatype jsnum = NaN | Num rat

fun js_add :: "jsnum \<Rightarrow> jsnum \<Rightarrow> jsnum" where
  "js_add (Num a) (Num b) = Num (fl (a + b))"
| "js_add _ _ = NaN"

fun js_mul :: "jsnum \<Rightarrow> jsnum \<Rightarrow> jsnum" where
  "js_mul (Num a) (Num b) = Num (fl (a * b))"
| "js_mul _ _ = NaN"

fun js_ge :: "jsnum \<Rightarrow> rat \<Rightarrow> bool" where
  "js_ge (Num a) t = (a \<ge> t)"
| "js_ge NaN t = False"

text \<open>
  \<^verbatim>\<open>Math.round(x * 100) / 100\<close>: the product is a double, \<open>Math.round\<close> gives the
  integer nearest to it, halves going up, and the quotient is a double again.
\<close>

definition round2 :: "rat \<Rightarrow> rat" where
  "round2 x = fl (of_int \<lfloor>fl (x * 100) + 1 / 2\<rfloor> / 100)"

definition integrationSimilarity :: "string list \<Rightarrow> string list \<Rightarrow> jsnum" where
  "integrationSimilarity refIntegrations wfIntegrations =
     (let intersection = length (filter (\<lambda>i. i \<in> set wfIntegrations) refIntegrations);
          union = length (remdups (refIntegrations @ wfIntegrations))
      in if union > 0 then Num (fl (of_nat intersection / of_nat union)) else Num 0)"

text \<open>
  \<^verbatim>\<open>1 - (nodeDiff / Math.max(reference.node_count, workflow.node_count))\<close>. The
  counts are not negative, so the divisor is 0 only when both counts are 0; then the
  quotient is \<open>0 / 0\<close>, which is \<open>NaN\<close>, and so is the difference.
\<close>

definition nodeCountSimilarity :: "nat \<Rightarrow> nat \<Rightarrow> jsnum" where
  "nodeCountSimilarity refCount wfCount =
     (let nodeDiff = (if refCount \<ge> wfCount then refCount - wfCount else wfCount - refCount);
          m = max refCount wfCount
      in if m = 0 then NaN else Num (fl (1 - fl (of_nat nodeDiff / of_nat m))))"

definition triggerSimilarity :: "string \<Rightarrow> string \<Rightarrow> jsnum" where
  "triggerSimilarity refTrigger wfTrigger = (if refTrigger = wfTrigger then Num 1 else Num (1 / 2))"

text \<open>
  \<^verbatim>\<open>integrationSimilarity * 0.5 + nodeCountSimilarity * 0.3 + triggerSimilarity * 0.2\<close>;
  the literals are the doubles nearest to the decimals.
\<close>

definition similarity :: "row \<Rightarrow> row \<Rightarrow> jsnum" where
  "similarity reference workflow =
     js_add
       (js_add
          (js_mul (integrationSimilarity (col_integrations reference) (col_integrations workflow))
             (Num (fl (1 / 2))))
          (js_mul (nodeCountSimilarity (col_node_count reference) (col_node_count workflow))
             (Num (fl (3 / 10)))))
       (js_mul (triggerSimilarity (col_trigger_type reference) (col_trigger_type workflow))
          (Num (fl (1 / 5))))"

record similar =
  sim_filename :: string
  sim_name :: string
  similarity_score :: rat
  shared_integrations :: "string list"
  sim_trigger_type :: string
  sim_node_count :: nat

record similar_result =
  reference_workflow :: row
  similar_workflows :: "similar list"
  total_found :: nat

text \<open>One round of the \<open>forEach\<close> of \<open>findSimilar\<close>.\<close>

definition similar_step :: "row \<Rightarrow> rat \<Rightarrow> similar list \<Rightarrow> row \<Rightarrow> similar list" where
  "similar_step reference similarity_threshold similarities workflow =
     (case similarity reference workflow of
        NaN \<Rightarrow> similarities
      | Num s \<Rightarrow>
          if js_ge (Num s) similarity_threshold then
            similarities @
              [\<lparr> sim_filename = col_filename workflow, sim_name = col_name workflow,
                 similarity_score = round2 s,
                 shared_integrations =
                   filter (\<lambda>i. i \<in> set (col_integrations workflow)) (col_integrations reference),
                 sim_trigger_type = col_trigger_type workflow,
                 sim_node_count = col_node_count workflow \<rparr>]
          else similarities)"

text \<open>
  \<open>findSimilar\<close>, for the threshold the request gives as a decimal (the default is
  0.7); the code holds it as the nearest double.
  \<^verbatim>\<open>sort((a, b) => b.similarity_score - a.similarity_score)\<close> is a stable sort,
  descending in the rounded score.
\<close>

definition findSimilar :: "store \<Rightarrow> string \<Rightarrow> rat \<Rightarrow> error + similar_result" where
  "findSimilar st file similarity_threshold =
     (case find (\<lambda>r. col_filename r = file) (workflows st) of
        None \<Rightarrow> Inl NotFound
      | Some reference \<Rightarrow>
          (let allWorkflows = filter (\<lambda>r. col_filename r \<noteq> file) (workflows st);
               similarities =
                 foldl (similar_step reference (fl similarity_threshold)) [] allWorkflows;
               ranked = sort_key (\<lambda>e. - similarity_score e) similarities
           in Inr \<lparr> reference_workflow = reference,
                    similar_workflows = take 20 ranked,
                    total_found = length similarities \<rparr>))"

section \<open>Integrations of the protocol server\<close>

text \<open>One round of the \<open>forEach\<close> of \<open>extractIntegrations\<close>.\<close>

definition extractIntegration :: "string list \<Rightarrow> node \<Rightarrow> string list" where
  "extractIntegration ints nd =
     (case node_type nd of
        None \<Rightarrow> ints
      | Some ty \<Rightarrow>
          if ty = [] then ints
          else if \<not> includes_str ty ''n8n-nodes-base.'' then
            (let integration = hd (split_str (CHR ''.'') ty) in
             if integration \<noteq> [] \<and> integration \<notin> set [''start'', ''noOp'', ''function'', ''set'']
             then set_add ints integration else ints)
          else
            (let parts = split_str (CHR ''.'') ty in
             if length parts > 1 then
               (let nodeName = parts ! 1 in
                if nodeName \<notin> set [''start'', ''noOp'', ''function'', ''set'', ''if'', ''merge'',
                                   ''switch'']
                then set_add ints (capitalize nodeName) else ints)
             else ints))"

definition extractIntegrations :: "node list option \<Rightarrow> string list" where
  "extractIntegrations nds =
     (case nds of None \<Rightarrow> [] | Some ns \<Rightarrow> foldl extractIntegration [] ns)"

section \<open>Notions the statements use\<close>

text \<open>
  The trigger class of a single node, by the order of the tests in \<open>analyzeNodes\<close>:
  webhook before cron or schedule before trigger; \<open>None\<close> when no test matches.
\<close>

definition node_trigger :: "node \<Rightarrow> string option" where
  "node_trigger nd =
     (let nodeType = or_empty (node_type nd) in
      if includes_str nodeType ''webhook'' then Some ''Webhook''
      else if includes_str nodeType ''cron'' \<or> includes_str nodeType ''schedule''
           then Some ''Scheduled''
      else if includes_str nodeType ''trigger'' then Some ''Triggered''
      else None)"

text \<open>
  The trigger type in the words of the specification: the first matching node in
  array order decides, and \<open>Manual\<close> stands when no node matches.
\<close>

definition spec_trigger_type :: "node list \<Rightarrow> string" where
  "spec_trigger_type nds =
     (case List.map_filter node_trigger nds of [] \<Rightarrow> ''Manual'' | t # _ \<Rightarrow> t)"

text \<open>A file whose analysis fails: \<open>analyzeWorkflow\<close> returns \<open>null\<close>.\<close>

definition fails_analysis :: "(string \<Rightarrow> disk_file) \<Rightarrow> string \<Rightarrow> bool" where
  "fails_analysis rd x = (analyzeWorkflow x (rd x) = None)"

text \<open>A file that cannot be indexed: its analysis fails, or the store raises on its record.\<close>

definition unindexable :: "(workflow \<Rightarrow> bool) \<Rightarrow> (string \<Rightarrow> disk_file) \<Rightarrow> string \<Rightarrow> bool" where
  "unindexable raises rd x =
     (case analyzeWorkflow x (rd x) of None \<Rightarrow> True | Some w \<Rightarrow> raises w)"

text \<open>
  A file is settled in a store when a run without force leaves it alone: it cannot be
  indexed, or the store holds its record under the digest the file has now.
\<close>

definition settled :: "(workflow \<Rightarrow> bool) \<Rightarrow> (string \<Rightarrow> disk_file) \<Rightarrow> store \<Rightarrow> string \<Rightarrow> bool" where
  "settled raises rd st x =
     (case analyzeWorkflow x (rd x) of
        None \<Rightarrow> True
      | Some w \<Rightarrow> raises w \<or>
          (case getWorkflowByFilename st x of
             None \<Rightarrow> False
           | Some e \<Rightarrow> col_file_hash e = file_hash w))"

text \<open>Two runs without force, one after the other, over the same corpus.\<close>

definition reindex_twice :: "(workflow \<Rightarrow> bool) \<Rightarrow> corpus \<Rightarrow> store \<Rightarrow> error + index_result" where
  "reindex_twice raises dir st =
     (case indexWorkflows raises dir False st of
        Inl e \<Rightarrow> Inl e
      | Inr first \<Rightarrow>
          (case indexWorkflows raises dir False (fst first) of
             Inl e \<Rightarrow> Inl e
           | Inr second \<Rightarrow> Inr (snd second)))"

text \<open>
  The similarity scores in the words of the specification: the Jaccard index of the two
  integration sets (0 when both are empty), the node count similarity (0 when both counts
  are 0), and their weighted sum with the trigger similarity.
\<close>

definition spec_integrationSimilarity :: "string list \<Rightarrow> string list \<Rightarrow> rat" where
  "spec_integrationSimilarity a b =
     (if set a \<union> set b = {} then 0
      else of_nat (card (set a \<inter> set b)) / of_nat (card (set a \<union> set b)))"

definition spec_nodeCountSimilarity :: "nat \<Rightarrow> nat \<Rightarrow> rat" where
  "spec_nodeCountSimilarity a b =
     (if a = 0 \<and> b = 0 then 0
      else 1 - of_nat (if a \<ge> b then a - b else b - a) / of_nat (max a b))"

definition spec_combined :: "row \<Rightarrow> row \<Rightarrow> rat" where
  "spec_combined reference workflow =
     1 / 2 * spec_integrationSimilarity (col_integrations reference) (col_integrations workflow) +
     3 / 10 * spec_nodeCountSimilarity (col_node_count reference) (col_node_count workflow) +
     1 / 5 * (if col_trigger_type reference = col_trigger_type workflow then 1 else 1 / 2)"

text \<open>
  The statement text of a search, by the three filters that are set: with a text query,
  and without one.
\<close>

definition fts_statement :: "bool \<Rightarrow> bool \<Rightarrow> bool \<Rightarrow> string" where
  "fts_statement b1 b2 b3 =
     ((fts_select @ (if b1 then '' AND trigger_type = ?'' else [])) @
        (if b2 then '' AND complexity = ?'' else [])) @
       (if b3 then '' AND active = 1'' else [])"

definition plain_statement :: "bool \<Rightarrow> bool \<Rightarrow> bool \<Rightarrow> string" where
  "plain_statement b1 b2 b3 =
     ((plain_select @ (if b1 then '' AND trigger_type = ?'' else [])) @
        (if b2 then '' AND complexity = ?'' else [])) @
       (if b3 then '' AND active = 1'' else [])"

text \<open>The store after a run without force over a corpus, when the store never raises.\<close>

definition reindex :: "store \<Rightarrow> corpus \<Rightarrow> store" where
  "reindex st dir =
     (case indexWorkflows (\<lambda>w. False) dir False st of
        Inl e \<Rightarrow> st
      | Inr res \<Rightarrow> fst res)"

text \<open>
  A stand-in for \<open>buildFTSQuery\<close> and the engine's \<open>MATCH\<close>, for queries without
  double quotes. \<open>buildFTSQuery\<close> turns every character that is no word character,
  white space, quote, apostrophe or hyphen into a blank, and joins the words that remain
  with \<open>AND\<close>, each word of two or more characters with a \<open>*\<close> behind it. The engine
  rejects the expression when no word remains, when a word is one of its operators
  \<open>AND\<close>, \<open>OR\<close>, \<open>NOT\<close>, or when a word holds a hyphen or an apostrophe.
  Otherwise it reads each word as the phrase of its tokens (the runs of letters and
  digits, in lower case) and finds a row when every phrase occurs in one of the row's
  columns; a phrase with no token is found nowhere, and behind a \<open>*\<close> the last token of
  the phrase may be the beginning of the column's token. A query with a double quote is
  outside the stand-in, which answers \<open>None\<close> for it.
\<close>

definition clean_query :: "string \<Rightarrow> string" where
  "clean_query q =
     map (\<lambda>c. if is_alnum c \<or> c = CHR ''_'' \<or> is_space c \<or> c = CHR 0x22 \<or> c = CHR 0x27
                  \<or> c = CHR ''-''
               then c else CHR '' '') q"

definition tokens :: "string \<Rightarrow> string list" where
  "tokens s = split_fields (\<lambda>c. \<not> is_alnum c) (toLowerCase s)"

fun phrase_at :: "bool \<Rightarrow> string list \<Rightarrow> string list \<Rightarrow> bool" where
  "phrase_at pre [] ts = True"
| "phrase_at pre (p # ps) [] = False"
| "phrase_at pre [p] (t # ts) = (if pre then startsWith t p else t = p)"
| "phrase_at pre (p # q # ps) (t # ts) = (t = p \<and> phrase_at pre (q # ps) ts)"

fun phrase_in :: "bool \<Rightarrow> string list \<Rightarrow> string list \<Rightarrow> bool" where
  "phrase_in pre ph [] = False"
| "phrase_in pre ph (t # ts) = (phrase_at pre ph (t # ts) \<or> phrase_in pre ph ts)"

definition term_rejected :: "string \<Rightarrow> bool" where
  "term_rejected t =
     (t = ''AND'' \<or> t = ''OR'' \<or> t = ''NOT'' \<or>
      list_ex (\<lambda>c. c = CHR ''-'' \<or> c = CHR 0x27 \<or> c = CHR 0x22) t)"

definition term_match :: "string \<Rightarrow> fts_row \<Rightarrow> bool" where
  "term_match t f =
     (let ph = tokens t
      in ph \<noteq> [] \<and>
         list_ex (phrase_in (2 \<le> length t) ph)
           [tokens (fts_filename f), tokens (fts_name f), tokens (fts_description f),
            concat (map tokens (fts_integrations f)), concat (map tokens (fts_tags f))])"

definition word_match :: "string \<Rightarrow> (fts_row \<Rightarrow> bool) option" where
  "word_match q =
     (let terms = split_fields is_space (clean_query q)
      in if terms = [] \<or> list_ex term_rejected terms then None
         else Some (\<lambda>f. list_all (\<lambda>t. term_match t f) terms))"

section \<open>Example data\<close>

definition empty_document :: document where
  "empty_document =
     \<lparr> doc_id = None, doc_active = False, doc_nodes = NodesAbsent, doc_tags = [],
       doc_createdAt = None, doc_updatedAt = None, doc_name = None \<rparr>"

definition webhook_node :: node where
  "webhook_node = \<lparr> node_name = ''Webhook'', node_type = Some ''n8n-nodes-base.webhook'' \<rparr>"

definition cron_node :: node where
  "cron_node = \<lparr> node_name = ''Cron'', node_type = Some ''n8n-nodes-base.cron'' \<rparr>"

definition set_node :: node where
  "set_node = \<lparr> node_name = ''Set'', node_type = Some ''n8n-nodes-base.set'' \<rparr>"

definition if_node :: node where
  "if_node = \<lparr> node_name = ''IF'', node_type = Some ''n8n-nodes-base.if'' \<rparr>"

definition slack_node :: node where
  "slack_node = \<lparr> node_name = ''Slack'', node_type = Some ''n8n-nodes-base.slack'' \<rparr>"

definition telegram_node :: node where
  "telegram_node = \<lparr> node_name = ''Telegram'', node_type = Some ''n8n-nodes-base.telegram'' \<rparr>"

definition slack_file :: disk_file where
  "slack_file =
     \<lparr> parsed = Some (empty_document\<lparr> doc_nodes := NodesArray [webhook_node, slack_node] \<rparr>),
       stat_size = 412, md5 = ''9e107d9d372bb682'' \<rparr>"

definition broken_file :: disk_file where
  "broken_file = \<lparr> parsed = None, stat_size = 7, md5 = ''e4d909c290d0fb1c'' \<rparr>"

definition example_corpus :: corpus where
  "example_corpus =
     \<lparr> readdir = Some [''0001_Slack_Webhook.json'', ''notes.txt'', ''0002_Broken.json''],
       readFile = (\<lambda>x. if x = ''0001_Slack_Webhook.json'' then slack_file else broken_file) \<rparr>"

text \<open>One file in two versions: the Slack node of the first is a Telegram node in the second.\<close>

definition notify_v1 :: corpus where
  "notify_v1 =
     \<lparr> readdir = Some [''0001_Notify.json''],
       readFile = (\<lambda>x. \<lparr> parsed = Some (empty_document\<lparr> doc_nodes :=
                                 NodesArray [webhook_node, slack_node] \<rparr>),
                          stat_size = 412, md5 = ''9e107d9d372bb682'' \<rparr>) \<rparr>"

definition notify_v2 :: corpus where
  "notify_v2 =
     \<lparr> readdir = Some [''0001_Notify.json''],
       readFile = (\<lambda>x. \<lparr> parsed = Some (empty_document\<lparr> doc_nodes :=
                                 NodesArray [webhook_node, telegram_node] \<rparr>),
                          stat_size = 418, md5 = ''6d7fce9fee471194'' \<rparr>) \<rparr>"



text \<open>Two documents without nodes.\<close>

definition blank_corpus :: corpus where
  "blank_corpus =
     \<lparr> readdir = Some [''0001_Blank.json'', ''0002_Blank.json''],
       readFile = (\<lambda>x. \<lparr> parsed = Some empty_document, stat_size = 2,
                          md5 = ''99914b932bd37a50'' \<rparr>) \<rparr>"



section \<open>Complexity is a function of the node count\<close>

text \<open>
  C6. For every analyzed document, complexity is \<open>low\<close> exactly when the node count is
  at most 5, \<open>medium\<close> exactly when it is 6 to 15, and \<open>high\<close> exactly when it is
  above 15; the node count is the number of nodes, and \<open>getComplexityLevel\<close> of the
  protocol server gives the same class.
\<close>

theorem C6_complexity_thresholds:
  assumes "analyzeWorkflow file f = Some w"
  shows "node_count w = length (nodes w) \<and>
         (complexity w = ''low'' \<longleftrightarrow> node_count w \<le> 5) \<and>
         (complexity w = ''medium'' \<longleftrightarrow> 6 \<le> node_count w \<and> node_count w \<le> 15) \<and>
         (complexity w = ''high'' \<longleftrightarrow> node_count w > 15) \<and>
         complexity w = getComplexityLevel (int (node_count w))"
  using assms
  by (auto simp: analyzeWorkflow_def getComplexityLevel_def Let_def
           split: option.splits jnodes.splits if_splits)

theorem C6_complexity_thresholds_witness:
  "\<exists>w. analyzeWorkflow ''0001_Six.json''
          \<lparr> parsed = Some \<lparr> doc_id = None, doc_active = False,
                             doc_nodes = NodesArray (replicate 6 \<lparr> node_name = ''n'', node_type = None \<rparr>),
                             doc_tags = [], doc_createdAt = None, doc_updatedAt = None,
                             doc_name = None \<rparr>,
            stat_size = 100, md5 = ''d41d'' \<rparr> = Some w \<and>
       node_count w = 6 \<and> complexity w = ''medium''"
proof -
  let ?f = "\<lparr> parsed = Some \<lparr> doc_id = None, doc_active = False,
                             doc_nodes = NodesArray (replicate 6 \<lparr> node_name = ''n'', node_type = None \<rparr>),
                             doc_tags = [], doc_createdAt = None, doc_updatedAt = None,
                             doc_name = None \<rparr>,
            stat_size = 100, md5 = ''d41d'' \<rparr>"
  have "\<exists>w. analyzeWorkflow ''0001_Six.json'' ?f = Some w \<and> node_count w = 6"
    by (simp add: analyzeWorkflow_def Let_def)
  then obtain w where w: "analyzeWorkflow ''0001_Six.json'' ?f = Some w" and n: "node_count w = 6"
    by blast
  from C6_complexity_thresholds [OF w] n have "complexity w = ''medium''"
    by simp
  with w n show ?thesis by blast
qed

section \<open>The counters of an indexing run\<close>

lemma indexFile_counters:
  "processed (snd (indexFile raises rd force sc x)) + skipped (snd (indexFile raises rd force sc x))
     + errors (snd (indexFile raises rd force sc x))
   = processed (snd sc) + skipped (snd sc) + errors (snd sc) + 1"
  by (simp add: indexFile_def Let_def split: option.splits sum.splits)

lemma index_loop_counters:
  "processed (snd (foldl (indexFile raises rd force) sc xs))
     + skipped (snd (foldl (indexFile raises rd force) sc xs))
     + errors (snd (foldl (indexFile raises rd force) sc xs))
   = processed (snd sc) + skipped (snd sc) + errors (snd sc) + length xs"
proof (induction xs arbitrary: sc)
  case Nil
  show ?case by simp
next
  case (Cons x xs)
  show ?case
    using Cons.IH [of "indexFile raises rd force sc x"]
          indexFile_counters [of raises rd force sc x]
    by simp
qed

text \<open>
  C10. Every indexing run that can enumerate the corpus completes, and its counters
  satisfy processed + skipped + errors = total, where total is the number of entries
  of the directory whose name ends in \<open>.json\<close>.
\<close>

theorem C10_counters_partition:
  assumes "readdir dir = Some workflowFiles"
  shows "\<exists>st' r. indexWorkflows raises dir forceReindex st = Inr (st', r) \<and>
           res_processed r + res_skipped r + res_errors r = res_total r \<and>
           res_total r = length (filter (\<lambda>file. endsWith file ''.json'') workflowFiles)"
  using assms index_loop_counters [of raises "readFile dir" forceReindex
      "(st, \<lparr> processed = 0, skipped = 0, errors = 0 \<rparr>)"
      "filter (\<lambda>file. endsWith file ''.json'') workflowFiles"]
  by (simp add: indexWorkflows_def Let_def)

theorem C10_counters_partition_witness:
  "\<exists>st' r. indexWorkflows (\<lambda>w. False) example_corpus False initDatabase = Inr (st', r) \<and>
           res_processed r + res_skipped r + res_errors r = res_total r \<and>
           res_total r = 2"
proof -
  have h: "readdir example_corpus =
             Some [''0001_Slack_Webhook.json'', ''notes.txt'', ''0002_Broken.json'']"
    by (simp add: example_corpus_def)
  have n: "length (filter (\<lambda>file. endsWith file ''.json'')
             [''0001_Slack_Webhook.json'', ''notes.txt'', ''0002_Broken.json'']) = 2"
    by (simp add: endsWith_def)
  show ?thesis
    using C10_counters_partition [OF h, of "\<lambda>w. False" False initDatabase]
    unfolding n by blast
qed

section \<open>A failing file is counted and the run goes on\<close>

lemma indexFile_fails:
  "fails_analysis rd x \<Longrightarrow>
     indexFile raises rd force sc x = (fst sc, (snd sc)\<lparr> errors := errors (snd sc) + 1 \<rparr>)"
  by (simp add: indexFile_def fails_analysis_def Let_def)

lemma indexFile_shift:
  "fst (indexFile raises rd force (st, c) x) = fst (indexFile raises rd force (st, c') x) \<and>
   processed (snd (indexFile raises rd force (st, c) x)) + processed c' =
     processed (snd (indexFile raises rd force (st, c') x)) + processed c \<and>
   skipped (snd (indexFile raises rd force (st, c) x)) + skipped c' =
     skipped (snd (indexFile raises rd force (st, c') x)) + skipped c \<and>
   errors (snd (indexFile raises rd force (st, c) x)) + errors c' =
     errors (snd (indexFile raises rd force (st, c') x)) + errors c"
  by (simp add: indexFile_def Let_def split: option.splits sum.splits)

lemma index_loop_skip_failing:
  assumes "fst sc = fst sc'" "processed (snd sc) = processed (snd sc')"
          "skipped (snd sc) = skipped (snd sc')" "errors (snd sc) = errors (snd sc') + k"
  shows "fst (foldl (indexFile raises rd force) sc xs) =
           fst (foldl (indexFile raises rd force) sc' (filter (\<lambda>x. \<not> fails_analysis rd x) xs)) \<and>
         processed (snd (foldl (indexFile raises rd force) sc xs)) =
           processed (snd (foldl (indexFile raises rd force) sc' (filter (\<lambda>x. \<not> fails_analysis rd x) xs))) \<and>
         skipped (snd (foldl (indexFile raises rd force) sc xs)) =
           skipped (snd (foldl (indexFile raises rd force) sc' (filter (\<lambda>x. \<not> fails_analysis rd x) xs))) \<and>
         errors (snd (foldl (indexFile raises rd force) sc xs)) =
           errors (snd (foldl (indexFile raises rd force) sc' (filter (\<lambda>x. \<not> fails_analysis rd x) xs)))
             + k + length (filter (fails_analysis rd) xs)"
  using assms
proof (induction xs arbitrary: sc sc' k)
  case Nil
  then show ?case by simp
next
  case (Cons x xs)
  show ?case
  proof (cases "fails_analysis rd x")
    case True
    have "fst (indexFile raises rd force sc x) = fst sc'"
         "processed (snd (indexFile raises rd force sc x)) = processed (snd sc')"
         "skipped (snd (indexFile raises rd force sc x)) = skipped (snd sc')"
         "errors (snd (indexFile raises rd force sc x)) = errors (snd sc') + (k + 1)"
      using True Cons.prems by (simp_all add: indexFile_fails)
    from Cons.IH [OF this] True show ?thesis by simp
  next
    case False
    obtain st c where sc: "sc = (st, c)" by (cases sc)
    obtain st' c' where sc': "sc' = (st', c')" by (cases sc')
    have st: "st' = st" using Cons.prems sc sc' by simp
    have "fst (indexFile raises rd force sc x) = fst (indexFile raises rd force sc' x)"
         "processed (snd (indexFile raises rd force sc x)) = processed (snd (indexFile raises rd force sc' x))"
         "skipped (snd (indexFile raises rd force sc x)) = skipped (snd (indexFile raises rd force sc' x))"
         "errors (snd (indexFile raises rd force sc x)) = errors (snd (indexFile raises rd force sc' x)) + k"
      using indexFile_shift [of raises rd force st c x c'] Cons.prems sc sc' st by simp_all
    from Cons.IH [OF this] False show ?thesis by simp
  qed
qed

text \<open>
  C9. A run that can enumerate the corpus always returns its counters, with total the
  number of \<open>.json\<close> entries. Each file whose analysis fails adds one to the error
  counter and changes nothing else: the store, processed and skipped are those of the
  run over the corpus without the failing files.
\<close>

theorem C9_failing_files_counted:
  assumes "readdir dir = Some workflowFiles"
  shows "\<exists>st' r r'. indexWorkflows raises dir forceReindex st = Inr (st', r) \<and>
           res_total r = length (filter (\<lambda>file. endsWith file ''.json'') workflowFiles) \<and>
           indexWorkflows raises
             (dir\<lparr> readdir := Some (filter (\<lambda>x. \<not> fails_analysis (readFile dir) x) workflowFiles) \<rparr>)
             forceReindex st = Inr (st', r') \<and>
           res_processed r = res_processed r' \<and>
           res_skipped r = res_skipped r' \<and>
           res_errors r = res_errors r' +
             length (filter (fails_analysis (readFile dir))
                       (filter (\<lambda>file. endsWith file ''.json'') workflowFiles))"
proof -
  let ?json = "\<lambda>file. endsWith file ''.json''"
  let ?ok = "\<lambda>x. \<not> fails_analysis (readFile dir) x"
  let ?sc = "(st, \<lparr> processed = 0, skipped = 0, errors = 0 \<rparr>)"
  let ?js = "filter ?json workflowFiles"
  let ?R = "foldl (indexFile raises (readFile dir) forceReindex) ?sc ?js"
  let ?R' = "foldl (indexFile raises (readFile dir) forceReindex) ?sc (filter ?ok ?js)"
  have comm: "filter ?json (filter ?ok workflowFiles) = filter ?ok ?js"
    by (simp add: conj_commute)
  have run: "indexWorkflows raises dir forceReindex st =
      Inr (fst ?R, \<lparr> res_processed = processed (snd ?R), res_skipped = skipped (snd ?R),
                     res_errors = errors (snd ?R), res_total = length ?js \<rparr>)"
    using assms by (simp add: indexWorkflows_def Let_def)
  have run': "indexWorkflows raises (dir\<lparr> readdir := Some (filter ?ok workflowFiles) \<rparr>) forceReindex st =
      Inr (fst ?R', \<lparr> res_processed = processed (snd ?R'), res_skipped = skipped (snd ?R'),
                      res_errors = errors (snd ?R'), res_total = length (filter ?ok ?js) \<rparr>)"
    by (simp add: indexWorkflows_def Let_def comm del: filter_filter)
  have "fst ?sc = fst ?sc" "processed (snd ?sc) = processed (snd ?sc)"
       "skipped (snd ?sc) = skipped (snd ?sc)" "errors (snd ?sc) = errors (snd ?sc) + 0"
    by simp_all
  from index_loop_skip_failing [OF this, of raises "readFile dir" forceReindex ?js]
  have rel: "fst ?R = fst ?R'" "processed (snd ?R) = processed (snd ?R')"
            "skipped (snd ?R) = skipped (snd ?R')"
            "errors (snd ?R) = errors (snd ?R') + length (filter (fails_analysis (readFile dir)) ?js)"
    by simp_all
  show ?thesis
    unfolding run run' using rel by (simp del: filter_filter)
qed

theorem C9_failing_files_counted_witness:
  "\<exists>st' r r'. indexWorkflows (\<lambda>w. False) example_corpus False initDatabase = Inr (st', r) \<and>
     res_total r = 2 \<and>
     indexWorkflows (\<lambda>w. False)
       (example_corpus\<lparr> readdir := Some [''0001_Slack_Webhook.json''] \<rparr>) False initDatabase
       = Inr (st', r') \<and>
     res_processed r = res_processed r' \<and> res_skipped r = res_skipped r' \<and>
     res_errors r = res_errors r' + 1"
proof -
  let ?l = "[''0001_Slack_Webhook.json'', ''notes.txt'', ''0002_Broken.json'']"
  have h: "readdir example_corpus = Some ?l"
    by (simp add: example_corpus_def)
  have n: "length (filter (\<lambda>file. endsWith file ''.json'') ?l) = 2"
    by (simp add: endsWith_def)
  have m: "length (filter (fails_analysis (readFile example_corpus))
             (filter (\<lambda>file. endsWith file ''.json'') ?l)) = 1"
    by code_simp
  have k: "filter (\<lambda>x. \<not> fails_analysis (readFile example_corpus) x) ?l
             = [''0001_Slack_Webhook.json'']"
    by code_simp
  show ?thesis
    using C9_failing_files_counted [OF h, of "\<lambda>w. False" False initDatabase]
    unfolding n m k by blast
qed

section \<open>A second run over an unchanged corpus\<close>

lemma workflows_foldl_ad: "workflows (foldl workflows_ad st xs) = workflows st"
  by (induction xs arbitrary: st) (simp_all add: workflows_ad_def)

lemma find_other_filter:
  "y \<noteq> x \<Longrightarrow> find (\<lambda>r. col_filename r = y) (filter (\<lambda>r. col_filename r \<noteq> x) rs @ [new\<lparr> col_filename := x \<rparr>])
     = find (\<lambda>r. col_filename r = y) rs"
  by (induction rs) auto

lemma find_own_filter:
  "col_filename new = x \<Longrightarrow> find (\<lambda>r. col_filename r = x) (filter (\<lambda>r. col_filename r \<noteq> x) rs @ [new]) = Some new"
  by (induction rs) auto

lemma workflows_insert_or_replace:
  "workflows (insert_or_replace st vals) =
     filter (\<lambda>r. col_filename r \<noteq> col_filename vals) (workflows st) @ [vals\<lparr> col_id := sqlite_sequence st + 1 \<rparr>]"
  by (simp add: insert_or_replace_def Let_def workflows_ai_def workflows_foldl_ad)

lemma lookup_other:
  assumes "y \<noteq> col_filename vals"
  shows "getWorkflowByFilename (insert_or_replace st vals) y = getWorkflowByFilename st y"
proof -
  have "vals\<lparr> col_id := sqlite_sequence st + 1 \<rparr>
          = (vals\<lparr> col_id := sqlite_sequence st + 1 \<rparr>)\<lparr> col_filename := col_filename vals \<rparr>"
    by simp
  then show ?thesis
    using find_other_filter [OF assms, of "workflows st" "vals\<lparr> col_id := sqlite_sequence st + 1 \<rparr>"]
    by (simp add: getWorkflowByFilename_def workflows_insert_or_replace)
qed

lemma lookup_own:
  "getWorkflowByFilename (insert_or_replace st vals) (col_filename vals)
     = Some (vals\<lparr> col_id := sqlite_sequence st + 1 \<rparr>)"
  using find_own_filter [of "vals\<lparr> col_id := sqlite_sequence st + 1 \<rparr>" "col_filename vals" "workflows st"]
  by (simp add: getWorkflowByFilename_def workflows_insert_or_replace)

lemma analyzeWorkflow_filename:
  "analyzeWorkflow x f = Some w \<Longrightarrow> filename w = x \<and> file_hash w = md5 f"
  by (auto simp: analyzeWorkflow_def Let_def split: option.splits jnodes.splits)

lemma indexFile_settles_own: "settled raises rd (fst (indexFile raises rd False sc x)) x"
proof (cases "analyzeWorkflow x (rd x)")
  case None
  then show ?thesis by (simp add: settled_def)
next
  case (Some w)
  have fn: "filename w = x" using analyzeWorkflow_filename [OF Some] by simp
  show ?thesis
    using Some fn lookup_own [of "fst sc" "row_of w"]
    by (auto simp: settled_def indexFile_def Let_def upsertWorkflow_def row_of_def
             split: option.splits)
qed

lemma indexFile_keeps_settled:
  assumes "settled raises rd (fst sc) y"
  shows "settled raises rd (fst (indexFile raises rd False sc x)) y"
proof (cases "y = x")
  case True
  then show ?thesis using indexFile_settles_own by simp
next
  case False
  show ?thesis
  proof (cases "analyzeWorkflow x (rd x)")
    case None
    then show ?thesis using assms by (simp add: indexFile_def Let_def)
  next
    case (Some w)
    have fn: "filename w = x" using analyzeWorkflow_filename [OF Some] by simp
    have "getWorkflowByFilename (insert_or_replace (fst sc) (row_of w)) y
            = getWorkflowByFilename (fst sc) y"
      using lookup_other [of y "row_of w" "fst sc"] False fn by (simp add: row_of_def)
    then show ?thesis
      using assms Some
      by (auto simp: settled_def indexFile_def Let_def upsertWorkflow_def
               split: option.splits)
  qed
qed

lemma index_loop_settles:
  assumes "\<forall>y\<in>S. settled raises rd (fst sc) y"
  shows "\<forall>y\<in>S \<union> set xs. settled raises rd (fst (foldl (indexFile raises rd False) sc xs)) y"
  using assms
proof (induction xs arbitrary: sc S)
  case Nil
  then show ?case by simp
next
  case (Cons x xs)
  have "\<forall>y\<in>insert x S. settled raises rd (fst (indexFile raises rd False sc x)) y"
    using Cons.prems indexFile_settles_own indexFile_keeps_settled by blast
  from Cons.IH [OF this] show ?case by simp
qed

lemma indexFile_settled_step:
  assumes "settled raises rd (fst sc) x"
  shows "fst (indexFile raises rd False sc x) = fst sc \<and>
         processed (snd (indexFile raises rd False sc x)) = processed (snd sc) \<and>
         errors (snd (indexFile raises rd False sc x)) \<le>
           errors (snd sc) + (if unindexable raises rd x then 1 else 0)"
  using assms
  by (auto simp: settled_def unindexable_def indexFile_def Let_def upsertWorkflow_def
           split: option.splits)

lemma index_loop_settled:
  assumes "\<forall>x\<in>set xs. settled raises rd (fst sc) x"
  shows "fst (foldl (indexFile raises rd False) sc xs) = fst sc \<and>
         processed (snd (foldl (indexFile raises rd False) sc xs)) = processed (snd sc) \<and>
         errors (snd (foldl (indexFile raises rd False) sc xs)) \<le>
           errors (snd sc) + length (filter (unindexable raises rd) xs)"
  using assms
proof (induction xs arbitrary: sc)
  case Nil
  then show ?case by simp
next
  case (Cons x xs)
  have step: "fst (indexFile raises rd False sc x) = fst sc"
             "processed (snd (indexFile raises rd False sc x)) = processed (snd sc)"
             "errors (snd (indexFile raises rd False sc x)) \<le>
                errors (snd sc) + (if unindexable raises rd x then 1 else 0)"
    using indexFile_settled_step [of raises rd sc x] Cons.prems by simp_all
  have "\<forall>y\<in>set xs. settled raises rd (fst (indexFile raises rd False sc x)) y"
    using Cons.prems step(1) by simp
  from Cons.IH [OF this] step show ?case by auto
qed


text \<open>
  C7 (amended). Two runs without force over the same corpus: the second leaves the store
  as the first left it and returns processed = 0 and skipped = total - errors. Its errors
  are at most the files that cannot be indexed, so skipped = total when every file is
  analyzed and stored.
\<close>

theorem C7_second_run:
  assumes "readdir dir = Some workflowFiles"
  shows "\<exists>st1 r1 r2.
           indexWorkflows raises dir False st = Inr (st1, r1) \<and>
           indexWorkflows raises dir False st1 = Inr (st1, r2) \<and>
           res_processed r2 = 0 \<and>
           res_skipped r2 + res_errors r2 = res_total r2 \<and>
           res_total r2 = length (filter (\<lambda>file. endsWith file ''.json'') workflowFiles) \<and>
           res_errors r2 \<le> length (filter (unindexable raises (readFile dir))
                                  (filter (\<lambda>file. endsWith file ''.json'') workflowFiles))"
proof -
  let ?js = "filter (\<lambda>file. endsWith file ''.json'') workflowFiles"
  let ?c0 = "\<lparr> processed = 0, skipped = 0, errors = 0 \<rparr>"
  let ?step = "indexFile raises (readFile dir) False"
  let ?R1 = "foldl ?step (st, ?c0) ?js"
  let ?R2 = "foldl ?step (fst ?R1, ?c0) ?js"
  have run1: "indexWorkflows raises dir False st =
      Inr (fst ?R1, \<lparr> res_processed = processed (snd ?R1), res_skipped = skipped (snd ?R1),
                      res_errors = errors (snd ?R1), res_total = length ?js \<rparr>)"
    using assms by (simp add: indexWorkflows_def Let_def)
  have run2: "indexWorkflows raises dir False (fst ?R1) =
      Inr (fst ?R2, \<lparr> res_processed = processed (snd ?R2), res_skipped = skipped (snd ?R2),
                      res_errors = errors (snd ?R2), res_total = length ?js \<rparr>)"
    using assms by (simp add: indexWorkflows_def Let_def)
  have "\<forall>y\<in>{} \<union> set ?js. settled raises (readFile dir) (fst ?R1) y"
    by (rule index_loop_settles) simp
  then have "\<forall>x\<in>set ?js. settled raises (readFile dir) (fst (fst ?R1, ?c0)) x"
    by simp
  from index_loop_settled [OF this]
  have second: "fst ?R2 = fst ?R1" "processed (snd ?R2) = 0"
               "errors (snd ?R2) \<le> length (filter (unindexable raises (readFile dir)) ?js)"
    by simp_all
  have total: "processed (snd ?R2) + skipped (snd ?R2) + errors (snd ?R2) = length ?js"
    using index_loop_counters [of raises "readFile dir" False "(fst ?R1, ?c0)" ?js] by simp
  show ?thesis
    unfolding run1 using run2 second total by simp
qed

theorem C7_second_run_witness:
  "\<exists>st1 r1 r2.
     indexWorkflows (\<lambda>w. False) (example_corpus\<lparr> readdir := Some [''0001_Slack_Webhook.json''] \<rparr>)
       False initDatabase = Inr (st1, r1) \<and>
     indexWorkflows (\<lambda>w. False) (example_corpus\<lparr> readdir := Some [''0001_Slack_Webhook.json''] \<rparr>)
       False st1 = Inr (st1, r2) \<and>
     res_processed r2 = 0 \<and> res_skipped r2 = 1 \<and> res_errors r2 = 0 \<and> res_total r2 = 1"
proof -
  let ?dir = "example_corpus\<lparr> readdir := Some [''0001_Slack_Webhook.json''] \<rparr>"
  let ?l = "[''0001_Slack_Webhook.json'']"
  have h: "readdir ?dir = Some ?l"
    by simp
  have n: "length (filter (\<lambda>file. endsWith file ''.json'') ?l) = 1"
    by (simp add: endsWith_def)
  have m: "length (filter (unindexable (\<lambda>w. False) (readFile ?dir))
             (filter (\<lambda>file. endsWith file ''.json'') ?l)) = 0"
    by code_simp
  from C7_second_run [OF h, of "\<lambda>w. False" initDatabase]
  obtain st1 r1 r2 where
    "indexWorkflows (\<lambda>w. False) ?dir False initDatabase = Inr (st1, r1)"
    "indexWorkflows (\<lambda>w. False) ?dir False st1 = Inr (st1, r2)"
    "res_processed r2 = 0" "res_skipped r2 + res_errors r2 = res_total r2"
    "res_total r2 = 1" "res_errors r2 \<le> 0"
    unfolding n m by blast
  then show ?thesis by auto
qed

text \<open>
  C7 as stated fails on a corpus with a file that is no JSON document: the second run
  counts it as an error again, and skipped stays below total.
\<close>

theorem C7_counterexample:
  "reindex_twice (\<lambda>w. False) example_corpus initDatabase =
     Inr \<lparr> res_processed = 0, res_skipped = 1, res_errors = 1, res_total = 2 \<rparr> \<and>
   res_skipped \<lparr> res_processed = 0, res_skipped = 1, res_errors = 1, res_total = 2 \<rparr> \<noteq>
   res_total \<lparr> res_processed = 0, res_skipped = 1, res_errors = 1, res_total = 2 \<rparr>"
proof -
  have "reindex_twice (\<lambda>w. False) example_corpus initDatabase =
     Inr \<lparr> res_processed = 0, res_skipped = 1, res_errors = 1, res_total = 2 \<rparr>"
    by code_simp
  then show ?thesis by simp
qed

section \<open>The trigger type\<close>

lemma analyzeNode_trigger:
  "snd (analyzeNode st nd) = (case node_trigger nd of None \<Rightarrow> snd st | Some t \<Rightarrow> t)"
  by (simp add: analyzeNode_def node_trigger_def Let_def)

lemma analyze_loop_trigger:
  "snd (foldl analyzeNode st nds) = last (snd st # List.map_filter node_trigger nds)"
proof (induction nds arbitrary: st)
  case Nil
  show ?case by (simp add: List.map_filter_simps)
next
  case (Cons nd nds)
  show ?case
    using Cons.IH [of "analyzeNode st nd"]
    by (simp add: analyzeNode_trigger List.map_filter_simps split: option.splits)
qed

text \<open>
  C2 (amended). The trigger type is the class of the last node in array order that matches
  one of the tests, each node classified under the priority Webhook, then Scheduled
  (cron or schedule), then Triggered; it is \<open>Manual\<close> when no node matches.
\<close>

theorem C2_last_match_wins:
  "snd (analyzeNodes nds) = last (''Manual'' # List.map_filter node_trigger nds)"
  using analyze_loop_trigger [of "([], ''Manual'')" nds]
  by (simp add: analyzeNodes_def)

text \<open>
  C2 as stated fails on a webhook node followed by a cron node: the first matching node
  is the webhook, and the analyzer answers \<open>Scheduled\<close>.
\<close>

theorem C2_counterexample:
  "snd (analyzeNodes [webhook_node, cron_node]) = ''Scheduled'' \<and>
   spec_trigger_type [webhook_node, cron_node] = ''Webhook''"
  by code_simp

section \<open>Structural nodes among the integrations\<close>

lemma extractIntegration_structural:
  "nm \<in> set [''start'', ''noOp'', ''function'', ''set'', ''if'', ''merge'', ''switch''] \<Longrightarrow>
     extractIntegration ints \<lparr> node_name = n, node_type = Some (''n8n-nodes-base.'' @ nm) \<rparr> = ints"
  by (auto simp: extractIntegration_def Let_def)

text \<open>
  C4. The analyzer of the index puts the structural nodes \<open>set\<close> and \<open>if\<close> among the
  integrations; \<open>extractIntegrations\<close> of the protocol server leaves them out on the
  same nodes.
\<close>

theorem C4_structural_nodes_indexed:
  "fst (analyzeNodes [webhook_node, set_node, if_node, slack_node])
     = [''Webhook'', ''Set'', ''If'', ''Slack''] \<and>
   extractIntegrations (Some [webhook_node, set_node, if_node, slack_node])
     = [''Webhook'', ''Slack'']"
  by code_simp

section \<open>The similarity ranking\<close>

text \<open>
  Doubles at work: 0.9 and 0.3 are not the decimals, 0.1 + 0.2 is not 0.3, and the
  computed score 0.7749999999999999 is reported as 0.77 where the literal 0.775 would be
  reported as 0.78.
\<close>

lemma double_examples:
  "fl (9 / 10) = 8106479329266893 / 9007199254740992 \<and>
   fl (fl (1 / 10) + fl (1 / 5)) = 1351079888211149 / 4503599627370496 \<and>
   fl (3 / 10) = 5404319552844595 / 18014398509481984 \<and>
   round2 (1745144855606067 / 2251799813685248) = fl (77 / 100) \<and>
   round2 (fl (31 / 40)) = fl (39 / 50) \<and>
   fl (1 / 2) = 1 / 2 \<and> fl 100 = 100"
  by code_simp









section \<open>Two records without nodes\<close>

text \<open>
  C5. For a reference and a candidate that both have no nodes, \<open>nodeCountSimilarity\<close>
  is \<open>NaN\<close> and so is the combined score; the candidate is dropped at every threshold,
  where the specification gives it the score 0.2.
\<close>

theorem C5_both_counts_zero:
  "nodeCountSimilarity 0 0 = NaN \<and>
   map col_node_count (workflows (reindex initDatabase blank_corpus)) = [0, 0] \<and>
   map (similarity (workflows (reindex initDatabase blank_corpus) ! 0))
       (workflows (reindex initDatabase blank_corpus)) = [NaN, NaN] \<and>
   map (spec_combined (workflows (reindex initDatabase blank_corpus) ! 0))
       (workflows (reindex initDatabase blank_corpus)) = [1 / 5, 1 / 5] \<and>
   findSimilar (reindex initDatabase blank_corpus) ''0001_Blank.json'' (1 / 10) =
     Inr \<lparr> reference_workflow = workflows (reindex initDatabase blank_corpus) ! 0,
            similar_workflows = [], total_found = 0 \<rparr>"
  by code_simp

section \<open>The full-text table after a replaced record\<close>

lemma replace_keeps_shadow_rows:
  "\<not> recursive_triggers st \<Longrightarrow>
     workflows_fts (insert_or_replace st vals) =
       workflows_fts st @ [fts_of (vals\<lparr> col_id := sqlite_sequence st + 1 \<rparr>)]"
  by (simp add: insert_or_replace_def workflows_ai_def Let_def)

lemma replace_with_recursive_triggers:
  "map (\<lambda>f. (fts_filename f, fts_integrations f))
       (workflows_fts (reindex (reindex (initDatabase\<lparr> recursive_triggers := True \<rparr>) notify_v1)
                         notify_v2))
     = [(''0001_Notify.json'', [''Webhook'', ''Telegram''])]"
  by code_simp

text \<open>
  C1. After the record of a file is replaced by the record of its new version, the
  full-text table holds two rows for the one live record, and the row of the previous
  version is still found: a search for \<open>slack\<close>, which only the previous version
  names, returns the record of that file.
\<close>

theorem C1_stale_shadow_row:
  "map col_integrations (workflows (reindex (reindex initDatabase notify_v1) notify_v2))
     = [[''Webhook'', ''Telegram'']] \<and>
   map (\<lambda>f. (fts_filename f, fts_integrations f))
       (workflows_fts (reindex (reindex initDatabase notify_v1) notify_v2))
     = [(''0001_Notify.json'', [''Webhook'', ''Slack'']),
        (''0001_Notify.json'', [''Webhook'', ''Telegram''])] \<and>
   searchWorkflows word_match (reindex (reindex initDatabase notify_v1) notify_v2)
       ''slack'' ''all'' ''all'' False 50 0
     = Inr \<lparr> found = workflows (reindex (reindex initDatabase notify_v1) notify_v2),
             total = None \<rparr>"
  by code_simp

section \<open>The total of a search\<close>

lemma fts_statement_not_a_count:
  "includes_str (replace (fts_statement b1 b2 b3) ''SELECT *'' ''SELECT COUNT(*) as total'')
       ''SELECT COUNT(*) as total'' = False"
proof -
  have "\<forall>b1\<in>{True, False}. \<forall>b2\<in>{True, False}. \<forall>b3\<in>{True, False}.
     includes_str (replace (fts_statement b1 b2 b3) ''SELECT *'' ''SELECT COUNT(*) as total'')
       ''SELECT COUNT(*) as total'' = False"
    by code_simp
  then show ?thesis by (cases b1; cases b2; cases b3) simp_all
qed

lemma search_sql_text:
  "q \<noteq> [] \<Longrightarrow> search_sql q tf cf ao = fts_statement (tf \<noteq> ''all'') (cf \<noteq> ''all'') ao"
  by (simp add: search_sql_def fts_statement_def Let_def)

lemma text_query_count:
  assumes "q \<noteq> []"
  shows "stmt_get (replace (search_sql q tf cf ao) ''SELECT *'' ''SELECT COUNT(*) as total'') rs
           = (case rs of [] \<Rightarrow> Undefined | r # _ \<Rightarrow> DataRow r)"
  unfolding search_sql_text [OF assms] stmt_get_def fts_statement_not_a_count
  by simp

lemma text_query_total_undefined:
  assumes "trim query \<noteq> []"
  shows "case searchWorkflows fm st query tf cf ao limit offset of
           Inl e \<Rightarrow> e = TypeError \<or> e = SqliteError
         | Inr r \<Rightarrow> total r = None"
proof (cases "fm (trim query)")
  case None
  then show ?thesis using assms by (simp add: searchWorkflows_def)
next
  case (Some m)
  show ?thesis
    unfolding searchWorkflows_def Let_def text_query_count [OF assms]
    using assms Some
    by (cases "search_rows m st (trim query) tf cf ao") simp_all
qed

lemma plain_statement_a_count:
  "includes_str (replace (plain_statement b1 b2 b3) ''SELECT *'' ''SELECT COUNT(*) as total'')
       ''SELECT COUNT(*) as total'' = True"
proof -
  have "\<forall>b1\<in>{True, False}. \<forall>b2\<in>{True, False}. \<forall>b3\<in>{True, False}.
     includes_str (replace (plain_statement b1 b2 b3) ''SELECT *'' ''SELECT COUNT(*) as total'')
       ''SELECT COUNT(*) as total'' = True"
    by code_simp
  then show ?thesis by (cases b1; cases b2; cases b3) simp_all
qed

lemma plain_sql_text:
  "search_sql [] tf cf ao = plain_statement (tf \<noteq> ''all'') (cf \<noteq> ''all'') ao"
  by (simp add: search_sql_def plain_statement_def Let_def)

lemma plain_query_count:
  "stmt_get (replace (search_sql [] tf cf ao) ''SELECT *'' ''SELECT COUNT(*) as total'') rs
     = CountRow (length rs)"
  unfolding plain_sql_text stmt_get_def plain_statement_a_count
  by simp

lemma plain_query_rows:
  "trim query = [] \<Longrightarrow> search_rows m st (trim query) tf cf ao = spec_matching fm st query tf cf ao"
  by (auto simp: search_rows_def spec_matching_def Let_def intro: filter_cong)

lemma filters_only_count:
  assumes "trim query = []"
  shows "searchWorkflows fm st query tf cf ao limit offset =
           Inr \<lparr> found = take limit (drop offset (sort_key col_name (spec_matching fm st query tf cf ao))),
                  total = Some (length (spec_matching fm st query tf cf ao)) \<rparr>"
  unfolding searchWorkflows_def Let_def
  using assms plain_query_count [of tf cf ao "spec_matching fm st query tf cf ao"]
        plain_query_rows [OF assms, of "\<lambda>f. True" st tf cf ao fm]
  by simp

lemma filters_only_pages:
  assumes "trim q = []"
  shows "\<exists>r. api_workflows fm st q tf cf ao page per_page = Inr r \<and>
           resp_total r = Some (length (spec_matching fm st q tf cf ao)) \<and>
           resp_pages r = Some (nat \<lceil>(of_nat (length (spec_matching fm st q tf cf ao)) :: rat)
                                      / of_int (min 100 (max 1 per_page))\<rceil>)"
  by (simp add: api_workflows_def Let_def filters_only_count [OF assms])

text \<open>
  C3. With a text query the count statement is the search statement itself, since
  \<^verbatim>\<open>SELECT w.*\<close> holds no \<^verbatim>\<open>SELECT *\<close> to replace: a query with one matching
  record returns no total and no page count, and a query without a match raises.
\<close>

theorem C3_text_query_total:
  "api_workflows word_match (reindex initDatabase notify_v1) ''slack'' ''all'' ''all'' False 1 20
     = Inr \<lparr> resp_workflows = workflows (reindex initDatabase notify_v1), resp_total = None,
             resp_page = 1, resp_per_page = 20, resp_pages = None \<rparr> \<and>
   length (spec_matching word_match (reindex initDatabase notify_v1)
             ''slack'' ''all'' ''all'' False) = 1 \<and>
   api_workflows word_match (reindex initDatabase notify_v1) ''discord'' ''all'' ''all'' False 1 20
     = Inl TypeError \<and>
   length (spec_matching word_match (reindex initDatabase notify_v1)
             ''discord'' ''all'' ''all'' False) = 0"
  by code_simp

end
